theory Spec2Isabelle
  imports Main
begin

section \<open>The Java generator driver: \<^verbatim>\<open>JavaGenerator::Generate\<close>\<close>

text \<open>
  A shallow embedding of \<^verbatim>\<open>JavaGenerator::Generate\<close>
  (\<^verbatim>\<open>compiler/java/generator.cc\<close>, lines 65--201). The function parses the
  generator parameter into options, fills an \<^verbatim>\<open>Options\<close> record, rejects
  unknown keys and the lite/mutable combination, applies the default, builds one
  \<^verbatim>\<open>FileGenerator\<close> per requested API, validates them all, generates them all
  and finally writes the two optional list files.

  Strings are \<^typ>\<open>string\<close>. The caller's \<^verbatim>\<open>*error\<close> slot is a string that is
  passed in and returned. The \<^verbatim>\<open>GeneratorContext\<close> is the sequence of streams
  opened through \<^verbatim>\<open>context->Open\<close>, oldest first, each with the bytes written to it.
\<close>

subsection \<open>Data\<close>

text \<open>The fields of \<^verbatim>\<open>Options\<close> that \<^verbatim>\<open>Generate\<close> reads or writes.\<close>

record Options =
  generate_immutable_code :: bool
  generate_mutable_code :: bool
  generate_shared_code :: bool
  enforce_lite :: bool
  opensource_runtime :: bool
  annotate_code :: bool
  annotation_list_file :: string
  output_list_file :: string

text \<open>
  Modelled from the spec: the default-constructed \<^verbatim>\<open>Options file_options;\<close> of line 74.
  The constructor lives in \<^verbatim>\<open>options.h\<close>, which is not among the sources. The spec
  (section 3 and 4.2) has every flag unset and both paths empty before any option is
  applied; \<^verbatim>\<open>opensource_runtime\<close> is overwritten at line 76 before it is read.
\<close>

definition Options_default :: Options where
  "Options_default =
     \<lparr>generate_immutable_code = False, generate_mutable_code = False,
      generate_shared_code = False, enforce_lite = False, opensource_runtime = False,
      annotate_code = False, annotation_list_file = [], output_list_file = []\<rparr>"

type_synonym GeneratorContext = "(string \<times> string) list"

text \<open>
  A \<^verbatim>\<open>FileGenerator\<close> (\<^verbatim>\<open>file.h\<close>, not among the sources) is known to
  \<^verbatim>\<open>Generate\<close> only through the five members it calls, so it is a record of them:
  \<^item> \<^verbatim>\<open>bool Validate(TProtoStringType* error)\<close>: from the error slot to the returned
    flag and the slot afterwards;
  \<^item> \<^verbatim>\<open>java_package()\<close> and \<^verbatim>\<open>classname()\<close>;
  \<^item> \<^verbatim>\<open>Generate(&printer)\<close>: given whether the printer carries an annotation
    collector, the text printed and the serialized \<^verbatim>\<open>GeneratedCodeInfo\<close>;
  \<^item> \<^verbatim>\<open>GenerateSiblings(package_dir, context, &all_files, &all_annotations)\<close>: from the
    directory, the context and the two lists to the context and the two lists afterwards.
\<close>

record FileGenerator =
  Validate :: "string \<Rightarrow> bool \<times> string"
  java_package :: string
  classname :: string
  FileGenerator_Generate :: "bool \<Rightarrow> string \<times> string"
  GenerateSiblings ::
    "string \<Rightarrow> GeneratorContext \<Rightarrow> string list \<Rightarrow> string list
      \<Rightarrow> GeneratorContext \<times> string list \<times> string list"

text \<open>
  What \<^verbatim>\<open>Generate\<close> uses and the source file does not define: the parameter parser
  (\<^verbatim>\<open>ParseGeneratorParameter\<close>), the constructor of \<^verbatim>\<open>FileGenerator\<close> (from
  the file descriptor, the options and the immutable flag), \<^verbatim>\<open>JavaPackageToDir\<close>,
  and the member \<^verbatim>\<open>opensource_runtime_\<close> of the generator object (here
  \<open>generator_opensource_runtime\<close>).
\<close>

record 'file JavaGenerator =
  ParseGeneratorParameter :: "string \<Rightarrow> (string \<times> string) list"
  new_FileGenerator :: "'file \<Rightarrow> Options \<Rightarrow> bool \<Rightarrow> FileGenerator"
  JavaPackageToDir :: "string \<Rightarrow> string"
  generator_opensource_runtime :: bool

text \<open>
  What a call leaves behind: the returned flag, the error slot, the context, and the two
  local vectors \<^verbatim>\<open>all_files\<close> and \<^verbatim>\<open>all_annotations\<close> (empty on the paths that
  return before they are filled).
\<close>

record Outcome =
  returned :: bool
  error :: string
  generator_context :: GeneratorContext
  all_files :: "string list"
  all_annotations :: "string list"

subsection \<open>Options (lines 72--112)\<close>

text \<open>The body of the loop over the options, lines 79--98: one chain of comparisons.\<close>

definition apply_option :: "string \<times> string \<Rightarrow> Options \<Rightarrow> string + Options" where
  "apply_option option file_options =
     (if fst option = ''output_list_file'' then
        Inr (file_options\<lparr>output_list_file := snd option\<rparr>)
      else if fst option = ''immutable'' then
        Inr (file_options\<lparr>generate_immutable_code := True\<rparr>)
      else if fst option = ''mutable'' then
        Inr (file_options\<lparr>generate_mutable_code := True\<rparr>)
      else if fst option = ''shared'' then
        Inr (file_options\<lparr>generate_shared_code := True\<rparr>)
      else if fst option = ''lite'' then
        Inr (file_options\<lparr>enforce_lite := True\<rparr>)
      else if fst option = ''annotate_code'' then
        Inr (file_options\<lparr>annotate_code := True\<rparr>)
      else if fst option = ''annotation_list_file'' then
        Inr (file_options\<lparr>annotation_list_file := snd option\<rparr>)
      else
        Inl (''Unknown generator option: '' @ fst option))"

text \<open>The loop of lines 78--99; it returns at the first unknown key.\<close>

fun apply_options :: "(string \<times> string) list \<Rightarrow> Options \<Rightarrow> string + Options" where
  "apply_options [] file_options = Inr file_options"
| "apply_options (option # options) file_options =
     (case apply_option option file_options of
        Inl e \<Rightarrow> Inl e
      | Inr file_options' \<Rightarrow> apply_options options file_options')"

text \<open>Lines 74--112: the loop, the lite/mutable check, the default.\<close>

definition lite_mutable_message :: string where
  "lite_mutable_message = ''lite runtime generator option cannot be used with mutable API.''"

definition check_and_default :: "Options \<Rightarrow> string + Options" where
  "check_and_default file_options =
     (if enforce_lite file_options \<and> generate_mutable_code file_options then
        Inl lite_mutable_message
      else if \<not> generate_immutable_code file_options \<and>
              \<not> generate_mutable_code file_options \<and>
              \<not> generate_shared_code file_options then
        Inr (file_options\<lparr>generate_immutable_code := True, generate_shared_code := True\<rparr>)
      else Inr file_options)"

definition read_options :: "bool \<Rightarrow> (string \<times> string) list \<Rightarrow> string + Options" where
  "read_options osr options =
     (case apply_options options (Options_default\<lparr>opensource_runtime := osr\<rparr>) of
        Inl e \<Rightarrow> Inl e
      | Inr file_options \<Rightarrow> check_and_default file_options)"

text \<open>The keys the chain of lines 79--93 compares with.\<close>

definition recognized_keys :: "string list" where
  "recognized_keys =
     [''output_list_file'', ''immutable'', ''mutable'', ''shared'', ''lite'',
      ''annotate_code'', ''annotation_list_file'']"

subsection \<open>File generators (lines 121--171)\<close>

text \<open>Lines 121--131: the immutable generator first, then the mutable one.\<close>

definition make_file_generators ::
  "'file JavaGenerator \<Rightarrow> 'file \<Rightarrow> Options \<Rightarrow> FileGenerator list" where
  "make_file_generators G file file_options =
     (if generate_immutable_code file_options
      then [new_FileGenerator G file file_options True] else []) @
     (if generate_mutable_code file_options
      then [new_FileGenerator G file file_options False] else [])"

text \<open>Lines 133--137: validate in order, return at the first failure.\<close>

fun validate_all :: "FileGenerator list \<Rightarrow> string \<Rightarrow> bool \<times> string" where
  "validate_all [] err = (True, err)"
| "validate_all (g # gs) err =
     (case Validate g err of
        (False, err') \<Rightarrow> (False, err')
      | (True, err') \<Rightarrow> validate_all gs err')"

text \<open>
  The body of the second loop, lines 140--170, on the state
  (context, \<^verbatim>\<open>all_files\<close>, \<^verbatim>\<open>all_annotations\<close>).
\<close>

definition generate_one ::
  "'file JavaGenerator \<Rightarrow> Options \<Rightarrow> FileGenerator
    \<Rightarrow> GeneratorContext \<times> string list \<times> string list
    \<Rightarrow> GeneratorContext \<times> string list \<times> string list" where
  "generate_one G file_options g st =
     (case st of (ctx, files, annotations) \<Rightarrow>
        let package_dir = JavaPackageToDir G (java_package g);
            java_filename = package_dir @ classname g @ ''.java'';
            files1 = files @ [java_filename];
            info_full_path = java_filename @ ''.pb.meta'';
            annotations1 =
              (if annotate_code file_options then annotations @ [info_full_path]
               else annotations);
            printed = FileGenerator_Generate g (annotate_code file_options);
            ctx1 = ctx @ [(java_filename, fst printed)]
        in case GenerateSiblings g package_dir ctx1 files1 annotations1 of
             (ctx2, files2, annotations2) \<Rightarrow>
               (if annotate_code file_options
                then (ctx2 @ [(info_full_path, snd printed)], files2, annotations2)
                else (ctx2, files2, annotations2)))"

fun generate_all ::
  "'file JavaGenerator \<Rightarrow> Options \<Rightarrow> FileGenerator list
    \<Rightarrow> GeneratorContext \<times> string list \<times> string list
    \<Rightarrow> GeneratorContext \<times> string list \<times> string list" where
  "generate_all G file_options [] st = st"
| "generate_all G file_options (g # gs) st =
     generate_all G file_options gs (generate_one G file_options g st)"

subsection \<open>List files (lines 176--198)\<close>

text \<open>The printing loops: \<^verbatim>\<open>Print("$filename$\n", "filename", names[i])\<close> for each name.\<close>

definition print_list :: "string list \<Rightarrow> string" where
  "print_list names = concat (map (\<lambda>filename. filename @ ''\<newline>'') names)"

definition write_lists ::
  "Options \<Rightarrow> GeneratorContext \<Rightarrow> string list \<Rightarrow> string list \<Rightarrow> GeneratorContext" where
  "write_lists file_options ctx files annotations =
     (let ctx1 =
            (if output_list_file file_options \<noteq> []
             then ctx @ [(output_list_file file_options, print_list files)] else ctx)
      in if annotation_list_file file_options \<noteq> []
         then ctx1 @ [(annotation_list_file file_options, print_list annotations)]
         else ctx1)"

subsection \<open>\<^verbatim>\<open>Generate\<close>\<close>

definition Generate ::
  "'file JavaGenerator \<Rightarrow> 'file \<Rightarrow> string \<Rightarrow> GeneratorContext \<Rightarrow> string \<Rightarrow> Outcome" where
  "Generate G file parameter ctx err =
     (case read_options (generator_opensource_runtime G) (ParseGeneratorParameter G parameter) of
        Inl e \<Rightarrow>
          \<lparr>returned = False, error = e, generator_context = ctx,
           all_files = [], all_annotations = []\<rparr>
      | Inr file_options \<Rightarrow>
          (case validate_all (make_file_generators G file file_options) err of
             (False, err') \<Rightarrow>
               \<lparr>returned = False, error = err', generator_context = ctx,
                all_files = [], all_annotations = []\<rparr>
           | (True, err') \<Rightarrow>
               (case generate_all G file_options
                       (make_file_generators G file file_options) (ctx, [], []) of
                  (ctx', files, annotations) \<Rightarrow>
                    \<lparr>returned = True, error = err',
                     generator_context = write_lists file_options ctx' files annotations,
                     all_files = files, all_annotations = annotations\<rparr>)))"

subsection \<open>Notions for the statements\<close>

text \<open>
  The notions of this subsection serve the statements and the proofs; they are not in the
  source. \<open>last_value k options d\<close> is the value of the last option with key \<open>k\<close>, or \<open>d\<close> when
  there is none.
\<close>

fun last_value :: "string \<Rightarrow> (string \<times> string) list \<Rightarrow> string \<Rightarrow> string" where
  "last_value k [] d = d"
| "last_value k (option # options) d =
     last_value k options (if fst option = k then snd option else d)"

text \<open>
  The options record after every option of a sequence of recognized keys has been applied,
  written without recursion: a flag is set when it was set before or its key occurs, a path
  is the last one given. Lemma \<open>apply_options_eq\<close> proves that the loop computes it.
\<close>

definition options_after :: "(string \<times> string) list \<Rightarrow> Options \<Rightarrow> Options" where
  "options_after options fo =
     \<lparr>generate_immutable_code = (generate_immutable_code fo \<or> ''immutable'' \<in> fst ` set options),
      generate_mutable_code = (generate_mutable_code fo \<or> ''mutable'' \<in> fst ` set options),
      generate_shared_code = (generate_shared_code fo \<or> ''shared'' \<in> fst ` set options),
      enforce_lite = (enforce_lite fo \<or> ''lite'' \<in> fst ` set options),
      opensource_runtime = opensource_runtime fo,
      annotate_code = (annotate_code fo \<or> ''annotate_code'' \<in> fst ` set options),
      annotation_list_file = last_value ''annotation_list_file'' options (annotation_list_file fo),
      output_list_file = last_value ''output_list_file'' options (output_list_file fo)\<rparr>"

text \<open>The keys that set a flag (lines 81--92).\<close>

definition flag_keys :: "string list" where
  "flag_keys = [''immutable'', ''mutable'', ''shared'', ''lite'', ''annotate_code'']"

subsection \<open>The file generator's side of two claims\<close>

text \<open>
  Modelled from the spec: what \<^verbatim>\<open>FileGenerator::Validate\<close> (in \<^verbatim>\<open>file.cc\<close>, not
  among the sources) does to the error slot. The spec gives the emitter's validation as
  \<^verbatim>\<open>validate() -> Result<Unit, Error>\<close> (section 9) and has the slot populated on
  failure (section 6): a validation that returns true leaves the slot as it found it.
\<close>

definition Validate_keeps_error_on_success :: "'file JavaGenerator \<Rightarrow> 'file \<Rightarrow> bool" where
  "Validate_keeps_error_on_success G file \<longleftrightarrow>
     (\<forall>file_options immutable err.
        fst (Validate (new_FileGenerator G file file_options immutable) err) \<longrightarrow>
        snd (Validate (new_FileGenerator G file file_options immutable) err) = err)"

text \<open>
  Modelled from the spec: what \<^verbatim>\<open>FileGenerator::GenerateSiblings\<close> (in
  \<^verbatim>\<open>file.cc\<close>, not among the sources) does to \<^verbatim>\<open>all_annotations\<close>. The spec
  (section 4.5) has no annotation work done when \<^verbatim>\<open>annotate_code\<close> is off: a generator
  built from options without \<^verbatim>\<open>annotate_code\<close> returns the annotation list it was
  given.
\<close>

definition siblings_annotate_on_request :: "'file JavaGenerator \<Rightarrow> 'file \<Rightarrow> bool" where
  "siblings_annotate_on_request G file \<longleftrightarrow>
     (\<forall>file_options immutable dir ctx files annotations.
        \<not> annotate_code file_options \<longrightarrow>
        snd (snd (GenerateSiblings (new_FileGenerator G file file_options immutable)
                    dir ctx files annotations)) = annotations)"

subsection \<open>An instance\<close>

text \<open>
  An instance of the parameters, for the examples that follow the theorems. The parser
  splits at commas and at the first \<^verbatim>\<open>=\<close> of each part. The file generators write a
  main class and one sibling \<^verbatim>\<open>Bar.java\<close>; the mutable one rejects the file
  \<^verbatim>\<open>clash.proto\<close>.
\<close>

fun split_commas :: "string \<Rightarrow> string list" where
  "split_commas [] = [[]]"
| "split_commas (c # cs) =
     (if c = CHR '','' then [] # split_commas cs
      else (case split_commas cs of [] \<Rightarrow> [[c]] | w # ws \<Rightarrow> (c # w) # ws))"

definition example_parse :: "string \<Rightarrow> (string \<times> string) list" where
  "example_parse text =
     map (\<lambda>part. (takeWhile (\<lambda>c. c \<noteq> CHR ''='') part,
                   drop 1 (dropWhile (\<lambda>c. c \<noteq> CHR ''='') part)))
       (filter (\<lambda>part. part \<noteq> []) (split_commas text))"

definition example_file_generator :: "string \<Rightarrow> Options \<Rightarrow> bool \<Rightarrow> FileGenerator" where
  "example_file_generator file file_options immutable =
     \<lparr>Validate = (\<lambda>err. if immutable then (True, err)
                          else if file = ''clash.proto''
                            then (False, file @ '': conflicting class name'')
                            else (True, err)),
      java_package = ''com.example'',
      classname = (if immutable then ''Foo'' else ''MutableFoo''),
      FileGenerator_Generate =
        (\<lambda>collect. (''class'', if collect then ''info'' else [])),
      GenerateSiblings =
        (\<lambda>dir ctx files annotations.
           (ctx @ [(dir @ ''Bar.java'', ''interface'')] @
              (if annotate_code file_options then [(dir @ ''Bar.java.pb.meta'', ''info'')] else []),
            files @ [dir @ ''Bar.java''],
            if annotate_code file_options then annotations @ [dir @ ''Bar.java.pb.meta'']
            else annotations))\<rparr>"

definition example_generator :: "string JavaGenerator" where
  "example_generator =
     \<lparr>ParseGeneratorParameter = example_parse,
      new_FileGenerator = example_file_generator,
      JavaPackageToDir = (\<lambda>package. map (\<lambda>c. if c = CHR ''.'' then CHR ''/'' else c) package @ ''/''),
      generator_opensource_runtime = True\<rparr>"

text \<open>The options records of the examples.\<close>

definition example_options :: "bool \<Rightarrow> bool \<Rightarrow> string \<Rightarrow> Options" where
  "example_options immutable mutable list_file =
     \<lparr>generate_immutable_code = immutable, generate_mutable_code = mutable,
      generate_shared_code = False, enforce_lite = False, opensource_runtime = True,
      annotate_code = False, annotation_list_file = [], output_list_file = list_file\<rparr>"

section \<open>Lemmas\<close>

text \<open>The chain of comparisons, key by key.\<close>

lemma apply_option_unknown:
  "k \<notin> set recognized_keys \<Longrightarrow>
     apply_option (k, v) fo = Inl (''Unknown generator option: '' @ k)"
  unfolding apply_option_def recognized_keys_def by simp

lemma apply_option_output_list_file:
  "apply_option (''output_list_file'', v) fo = Inr (fo\<lparr>output_list_file := v\<rparr>)"
  unfolding apply_option_def by simp

lemma apply_option_immutable:
  "apply_option (''immutable'', v) fo = Inr (fo\<lparr>generate_immutable_code := True\<rparr>)"
  unfolding apply_option_def by simp

lemma apply_option_mutable:
  "apply_option (''mutable'', v) fo = Inr (fo\<lparr>generate_mutable_code := True\<rparr>)"
  unfolding apply_option_def by simp

lemma apply_option_shared:
  "apply_option (''shared'', v) fo = Inr (fo\<lparr>generate_shared_code := True\<rparr>)"
  unfolding apply_option_def by simp

lemma apply_option_lite:
  "apply_option (''lite'', v) fo = Inr (fo\<lparr>enforce_lite := True\<rparr>)"
  unfolding apply_option_def by simp

lemma apply_option_annotate_code:
  "apply_option (''annotate_code'', v) fo = Inr (fo\<lparr>annotate_code := True\<rparr>)"
  unfolding apply_option_def by simp

lemma apply_option_annotation_list_file:
  "apply_option (''annotation_list_file'', v) fo = Inr (fo\<lparr>annotation_list_file := v\<rparr>)"
  unfolding apply_option_def by simp

lemmas apply_option_known =
  apply_option_output_list_file apply_option_immutable apply_option_mutable
  apply_option_shared apply_option_lite apply_option_annotate_code
  apply_option_annotation_list_file

lemma recognized_keys_iff:
  "k \<in> set recognized_keys \<longleftrightarrow>
     k = ''output_list_file'' \<or> k = ''immutable'' \<or> k = ''mutable'' \<or> k = ''shared'' \<or>
     k = ''lite'' \<or> k = ''annotate_code'' \<or> k = ''annotation_list_file''"
  unfolding recognized_keys_def by simp

lemma recognized_cases:
  assumes "k \<in> set recognized_keys"
  obtains "k = ''output_list_file''" | "k = ''immutable''" | "k = ''mutable''"
    | "k = ''shared''" | "k = ''lite''" | "k = ''annotate_code''"
    | "k = ''annotation_list_file''"
  using assms unfolding recognized_keys_iff by (elim disjE) (erule that)+

text \<open>The loop computes \<open>options_after\<close> when every key is recognized, and only then succeeds.\<close>

lemma options_after_Nil: "options_after [] fo = fo"
  unfolding options_after_def by simp

lemma options_after_Cons:
  assumes "apply_option (k, v) fo = Inr fo1"
  shows "options_after ((k, v) # options) fo = options_after options fo1"
proof -
  have "k \<in> set recognized_keys"
    using assms apply_option_unknown [of k v fo] by auto
  then show ?thesis
    using assms
    by (cases k rule: recognized_cases) (auto simp: apply_option_known options_after_def)
qed

lemma apply_options_all_recognized:
  "fst ` set options \<subseteq> set recognized_keys \<Longrightarrow>
     apply_options options fo = Inr (options_after options fo)"
proof (induction options arbitrary: fo)
  case Nil
  show ?case by (simp add: options_after_Nil)
next
  case (Cons option options)
  obtain k v where kv: "option = (k, v)" by (cases option)
  from Cons.prems kv have k: "k \<in> set recognized_keys" by simp
  then obtain fo1 where fo1: "apply_option (k, v) fo = Inr fo1"
    by (cases k rule: recognized_cases) (auto simp: apply_option_known)
  from Cons.prems have "fst ` set options \<subseteq> set recognized_keys" by simp
  then have "apply_options options fo1 = Inr (options_after options fo1)"
    by (rule Cons.IH)
  then show ?case
    using fo1 kv options_after_Cons [OF fo1] by simp
qed

lemma apply_options_append:
  "apply_options (xs @ ys) fo =
     (case apply_options xs fo of Inl e \<Rightarrow> Inl e | Inr fo1 \<Rightarrow> apply_options ys fo1)"
  by (induction xs arbitrary: fo) (auto split: sum.splits)

lemma apply_options_first_unknown:
  assumes "fst ` set pre \<subseteq> set recognized_keys" and "k \<notin> set recognized_keys"
  shows "apply_options (pre @ (k, v) # post) fo = Inl (''Unknown generator option: '' @ k)"
  using assms
  by (simp add: apply_options_append apply_options_all_recognized apply_option_unknown)

lemma apply_options_Inr_recognized:
  "apply_options options fo = Inr fo1 \<Longrightarrow> fst ` set options \<subseteq> set recognized_keys"
proof (induction options arbitrary: fo)
  case Nil
  show ?case by simp
next
  case (Cons option options)
  obtain k v where kv: "option = (k, v)" by (cases option)
  show ?case
  proof (cases "k \<in> set recognized_keys")
    case True
    with Cons kv show ?thesis by (auto split: sum.splits)
  next
    case False
    with Cons.prems kv show ?thesis by (simp add: apply_option_unknown)
  qed
qed

lemma apply_options_Inr:
  "apply_options options fo = Inr fo1 \<Longrightarrow> fo1 = options_after options fo"
  using apply_options_Inr_recognized [of options fo fo1]
    apply_options_all_recognized [of options fo] by simp

text \<open>The check and the default, and the options read from a sequence.\<close>

lemma check_and_default_Inr:
  assumes "check_and_default fo0 = Inr fo"
  shows "\<not> (enforce_lite fo0 \<and> generate_mutable_code fo0)"
    and "fo = (if \<not> generate_immutable_code fo0 \<and> \<not> generate_mutable_code fo0 \<and>
                  \<not> generate_shared_code fo0
               then fo0\<lparr>generate_immutable_code := True, generate_shared_code := True\<rparr>
               else fo0)"
  using assms unfolding check_and_default_def by (auto split: if_splits)

lemma read_options_Inr:
  assumes "read_options osr options = Inr fo"
  shows "fst ` set options \<subseteq> set recognized_keys"
    and "check_and_default (options_after options (Options_default\<lparr>opensource_runtime := osr\<rparr>))
           = Inr fo"
proof -
  from assms obtain fo0 where
    fo0: "apply_options options (Options_default\<lparr>opensource_runtime := osr\<rparr>) = Inr fo0"
    and cd: "check_and_default fo0 = Inr fo"
    unfolding read_options_def by (simp split: sum.splits)
  from fo0 show "fst ` set options \<subseteq> set recognized_keys"
    by (rule apply_options_Inr_recognized)
  from fo0 cd show "check_and_default
      (options_after options (Options_default\<lparr>opensource_runtime := osr\<rparr>)) = Inr fo"
    using apply_options_Inr [OF fo0] by simp
qed

lemma read_options_recognized:
  assumes "fst ` set options \<subseteq> set recognized_keys"
  shows "read_options osr options =
           check_and_default (options_after options (Options_default\<lparr>opensource_runtime := osr\<rparr>))"
  unfolding read_options_def using apply_options_all_recognized [OF assms] by simp

lemma read_options_first_unknown:
  assumes "fst ` set pre \<subseteq> set recognized_keys" and "k \<notin> set recognized_keys"
  shows "read_options osr (pre @ (k, v) # post) = Inl (''Unknown generator option: '' @ k)"
  unfolding read_options_def using apply_options_first_unknown [OF assms] by simp

lemma options_after_fields:
  "generate_immutable_code (options_after options fo) =
     (generate_immutable_code fo \<or> ''immutable'' \<in> fst ` set options)"
  "generate_mutable_code (options_after options fo) =
     (generate_mutable_code fo \<or> ''mutable'' \<in> fst ` set options)"
  "generate_shared_code (options_after options fo) =
     (generate_shared_code fo \<or> ''shared'' \<in> fst ` set options)"
  "enforce_lite (options_after options fo) = (enforce_lite fo \<or> ''lite'' \<in> fst ` set options)"
  "annotate_code (options_after options fo) =
     (annotate_code fo \<or> ''annotate_code'' \<in> fst ` set options)"
  "opensource_runtime (options_after options fo) = opensource_runtime fo"
  "output_list_file (options_after options fo) =
     last_value ''output_list_file'' options (output_list_file fo)"
  "annotation_list_file (options_after options fo) =
     last_value ''annotation_list_file'' options (annotation_list_file fo)"
  unfolding options_after_def by simp_all

lemma read_options_fields:
  assumes "read_options osr options = Inr fo"
  shows "enforce_lite fo = (''lite'' \<in> fst ` set options)"
    and "annotate_code fo = (''annotate_code'' \<in> fst ` set options)"
    and "generate_mutable_code fo = (''mutable'' \<in> fst ` set options)"
    and "output_list_file fo = last_value ''output_list_file'' options []"
    and "annotation_list_file fo = last_value ''annotation_list_file'' options []"
    and "opensource_runtime fo = osr"
  using check_and_default_Inr(2) [OF read_options_Inr(2) [OF assms]]
  by (simp_all add: options_after_fields Options_default_def)

text \<open>The parameter \<^verbatim>\<open>lite,mutable,bogus=1,immutable\<close>.\<close>

lemma example_parse_lite_mutable_bogus:
  "example_parse ''lite,mutable,bogus=1,immutable'' =
     [(''lite'', ''''), (''mutable'', '''')] @ (''bogus'', ''1'') # [(''immutable'', '''')]"
  by (simp add: example_parse_def)

text \<open>The parameter \<^verbatim>\<open>mutable,output_list_file=a.txt,lite\<close>.\<close>

lemma example_parse_mutable_lite:
  "example_parse ''mutable,output_list_file=a.txt,lite'' =
     [(''mutable'', ''''), (''output_list_file'', ''a.txt''), (''lite'', '''')]"
  by (simp add: example_parse_def)

text \<open>The last value of a key.\<close>

lemma last_value_append:
  "last_value k (xs @ ys) d = last_value k ys (last_value k xs d)"
  by (induction xs arbitrary: d) simp_all

lemma last_value_absent: "k \<notin> fst ` set ys \<Longrightarrow> last_value k ys d = d"
  by (induction ys arbitrary: d) auto

lemma last_value_last:
  "k \<notin> fst ` set ys \<Longrightarrow> last_value k (xs @ (k, v) # ys) d = v"
  by (simp add: last_value_append last_value_absent)

lemma last_value_other:
  "k' \<noteq> k \<Longrightarrow> last_value k (xs @ (k', v) # ys) d = last_value k (xs @ ys) d"
  by (simp add: last_value_append)

lemma flag_keys_recognized: "k \<in> set flag_keys \<Longrightarrow> k \<in> set recognized_keys"
  unfolding flag_keys_def recognized_keys_def by (simp, elim disjE) simp_all

lemma flag_keys_not_path:
  "k \<in> set flag_keys \<Longrightarrow> k \<noteq> ''output_list_file'' \<and> k \<noteq> ''annotation_list_file''"
  unfolding flag_keys_def by (simp, elim disjE) simp_all

lemma options_after_repeated_flag:
  assumes "k \<in> set flag_keys" and "k \<in> fst ` set (xs @ ys)"
  shows "options_after (xs @ (k, v) # ys) fo = options_after (xs @ ys) fo"
proof -
  have s: "fst ` set (xs @ (k, v) # ys) = fst ` set (xs @ ys)"
    using assms(2) by auto
  from flag_keys_not_path [OF assms(1)]
  have "last_value ''output_list_file'' (xs @ (k, v) # ys) (output_list_file fo) =
          last_value ''output_list_file'' (xs @ ys) (output_list_file fo)"
    and "last_value ''annotation_list_file'' (xs @ (k, v) # ys) (annotation_list_file fo) =
          last_value ''annotation_list_file'' (xs @ ys) (annotation_list_file fo)"
    by (simp_all add: last_value_other)
  then show ?thesis
    unfolding options_after_def s by simp
qed

lemma apply_options_eq:
  "apply_options options fo =
     (case find (\<lambda>option. fst option \<notin> set recognized_keys) options of
        Some option \<Rightarrow> Inl (''Unknown generator option: '' @ fst option)
      | None \<Rightarrow> Inr (options_after options fo))"
proof (induction options arbitrary: fo)
  case Nil
  show ?case by (simp add: options_after_Nil)
next
  case (Cons option options)
  obtain k v where kv: "option = (k, v)" by (cases option)
  show ?case
  proof (cases "k \<in> set recognized_keys")
    case True
    then obtain fo1 where fo1: "apply_option (k, v) fo = Inr fo1"
      by (cases k rule: recognized_cases) (auto simp: apply_option_known)
    show ?thesis
      using True kv fo1 Cons.IH [of fo1] options_after_Cons [OF fo1, of options]
      by (simp split: option.split)
  next
    case False
    then show ?thesis using kv by (simp add: apply_option_unknown)
  qed
qed

lemma find_skip:
  "\<not> P y \<Longrightarrow> find P (xs @ y # ys) = find P (xs @ ys)"
  by (induction xs) simp_all

lemma apply_options_repeated_flag:
  assumes "k \<in> set flag_keys" and "k \<in> fst ` set (xs @ ys)"
  shows "apply_options (xs @ (k, v) # ys) fo = apply_options (xs @ ys) fo"
proof -
  have "find (\<lambda>option. fst option \<notin> set recognized_keys) (xs @ (k, v) # ys) =
          find (\<lambda>option. fst option \<notin> set recognized_keys) (xs @ ys)"
    using flag_keys_recognized [OF assms(1)] by (simp add: find_skip)
  then show ?thesis
    unfolding apply_options_eq using options_after_repeated_flag [OF assms, of v fo]
    by (simp split: option.split)
qed

text \<open>The validation loop.\<close>

lemma validate_all_append:
  "validate_all (xs @ ys) err =
     (if fst (validate_all xs err) then validate_all ys (snd (validate_all xs err))
      else validate_all xs err)"
  by (induction xs arbitrary: err) (auto split: prod.splits bool.splits)

lemma validate_all_fails_at:
  assumes "fst (validate_all earlier err)"
    and "\<not> fst (Validate g (snd (validate_all earlier err)))"
  shows "validate_all (earlier @ g # later) err =
           (False, snd (Validate g (snd (validate_all earlier err))))"
proof -
  obtain b err' where v: "Validate g (snd (validate_all earlier err)) = (b, err')"
    by (cases "Validate g (snd (validate_all earlier err))")
  with assms(2) have "\<not> b" by simp
  with v assms(1) show ?thesis by (simp add: validate_all_append)
qed

lemma validate_all_keeps_error:
  assumes "\<forall>g \<in> set gs. \<forall>e. fst (Validate g e) \<longrightarrow> snd (Validate g e) = e"
    and "fst (validate_all gs err)"
  shows "snd (validate_all gs err) = err"
  using assms
proof (induction gs arbitrary: err)
  case Nil
  then show ?case by simp
next
  case (Cons g gs)
  from Cons.prems(2) have ok: "fst (Validate g err)"
    by (auto split: prod.splits bool.splits)
  with Cons.prems(1) have same: "snd (Validate g err) = err" by simp
  from ok same have v: "Validate g err = (True, err)"
    by (cases "Validate g err") simp
  with Cons.prems(2) have "fst (validate_all gs err)" by simp
  with Cons.IH Cons.prems(1) have "snd (validate_all gs err) = err" by simp
  with v show ?case by simp
qed

lemma set_make_file_generators:
  "g \<in> set (make_file_generators G file fo) \<Longrightarrow>
     \<exists>immutable. g = new_FileGenerator G file fo immutable"
  unfolding make_file_generators_def by (auto split: if_splits)

text \<open>The generation loop and the annotation list.\<close>

lemma generate_one_annotations:
  assumes "\<not> annotate_code fo"
    and "\<forall>dir ctx files annotations.
           snd (snd (GenerateSiblings g dir ctx files annotations)) = annotations"
  shows "snd (snd (generate_one G fo g st)) = snd (snd st)"
proof -
  obtain ctx files annotations where st: "st = (ctx, files, annotations)"
    by (cases st)
  define dir where "dir = JavaPackageToDir G (java_package g)"
  define ctx1 where
    "ctx1 = ctx @ [(dir @ classname g @ ''.java'', fst (FileGenerator_Generate g False))]"
  define files1 where "files1 = files @ [dir @ classname g @ ''.java'']"
  obtain ctx2 files2 annotations2 where
    sib: "GenerateSiblings g dir ctx1 files1 annotations = (ctx2, files2, annotations2)"
    by (cases "GenerateSiblings g dir ctx1 files1 annotations")
  from assms(2) sib have "annotations2 = annotations"
    by (metis snd_conv)
  with assms(1) sib show ?thesis
    unfolding generate_one_def st dir_def ctx1_def files1_def by (simp add: Let_def)
qed

lemma generate_all_annotations:
  assumes "\<not> annotate_code fo"
    and "\<forall>g \<in> set gs. \<forall>dir ctx files annotations.
           snd (snd (GenerateSiblings g dir ctx files annotations)) = annotations"
  shows "snd (snd (generate_all G fo gs st)) = snd (snd st)"
  using assms(2)
proof (induction gs arbitrary: st)
  case Nil
  show ?case by simp
next
  case (Cons g gs)
  have "snd (snd (generate_one G fo g st)) = snd (snd st)"
    using assms(1) Cons.prems by (intro generate_one_annotations) simp_all
  moreover have "snd (snd (generate_all G fo gs (generate_one G fo g st))) =
                   snd (snd (generate_one G fo g st))"
    using Cons.prems by (intro Cons.IH) simp
  ultimately show ?case by simp
qed

text \<open>The two ways through \<^verbatim>\<open>Generate\<close> that matter below.\<close>

lemma Generate_returned:
  assumes "returned (Generate G file parameter ctx err)"
  obtains fo where
    "read_options (generator_opensource_runtime G) (ParseGeneratorParameter G parameter) = Inr fo"
    and "fst (validate_all (make_file_generators G file fo) err)"
proof (cases "read_options (generator_opensource_runtime G) (ParseGeneratorParameter G parameter)")
  case (Inl e)
  with assms show ?thesis unfolding Generate_def by simp
next
  case (Inr fo)
  with assms have "fst (validate_all (make_file_generators G file fo) err)"
    unfolding Generate_def by (auto split: prod.splits bool.splits)
  with Inr show ?thesis by (rule that)
qed

lemma Generate_success:
  assumes "read_options (generator_opensource_runtime G) (ParseGeneratorParameter G parameter) = Inr fo"
    and "fst (validate_all (make_file_generators G file fo) err)"
  shows "Generate G file parameter ctx err =
     \<lparr>returned = True, error = snd (validate_all (make_file_generators G file fo) err),
      generator_context =
        write_lists fo (fst (generate_all G fo (make_file_generators G file fo) (ctx, [], [])))
          (fst (snd (generate_all G fo (make_file_generators G file fo) (ctx, [], []))))
          (snd (snd (generate_all G fo (make_file_generators G file fo) (ctx, [], [])))),
      all_files = fst (snd (generate_all G fo (make_file_generators G file fo) (ctx, [], []))),
      all_annotations =
        snd (snd (generate_all G fo (make_file_generators G file fo) (ctx, [], [])))\<rparr>"
  using assms unfolding Generate_def by (auto split: prod.splits bool.splits)

text \<open>Evaluating the instance.\<close>

lemmas example_simps =
  example_generator_def example_parse_def example_file_generator_def example_options_def
  Generate_def read_options_def apply_option_def check_and_default_def Options_default_def
  make_file_generators_def generate_one_def write_lists_def print_list_def Let_def

lemma example_Validate_keeps_error:
  "Validate_keeps_error_on_success example_generator file"
  unfolding Validate_keeps_error_on_success_def example_generator_def
    example_file_generator_def by simp

lemma example_siblings_annotate_on_request:
  "siblings_annotate_on_request example_generator file"
  unfolding siblings_annotate_on_request_def example_generator_def
    example_file_generator_def by simp

section \<open>The claims\<close>

text \<open>
  Claim C1. Validation of all requested generators comes before any generation. When the
  generators requested before \<open>g\<close> validate and \<open>g\<close> does not, the call returns false with
  the error slot as \<open>g\<close> left it; the context is as it was when the call began (no stream
  was opened, not even for the generators that had validated) and no file is recorded.
\<close>

theorem Generate_validate_before_generate:
  assumes "read_options (generator_opensource_runtime G) (ParseGeneratorParameter G parameter) =
             Inr file_options"
    and "make_file_generators G file file_options = earlier @ g # later"
    and "fst (validate_all earlier err)"
    and "\<not> fst (Validate g (snd (validate_all earlier err)))"
  shows "Generate G file parameter ctx err =
           \<lparr>returned = False, error = snd (Validate g (snd (validate_all earlier err))),
            generator_context = ctx, all_files = [], all_annotations = []\<rparr>"
  using assms(1,2) validate_all_fails_at [OF assms(3,4), of later]
  unfolding Generate_def by simp

text \<open>
  Both APIs requested for \<^verbatim>\<open>clash.proto\<close>: the immutable generator validates, the
  mutable one does not, and nothing is generated.
\<close>

theorem Generate_validate_before_generate_witness:
  "read_options (generator_opensource_runtime example_generator)
     (ParseGeneratorParameter example_generator ''immutable,mutable'') =
     Inr (example_options True True []) \<and>
   make_file_generators example_generator ''clash.proto'' (example_options True True []) =
     [example_file_generator ''clash.proto'' (example_options True True []) True] @
     example_file_generator ''clash.proto'' (example_options True True []) False # [] \<and>
   fst (validate_all
     [example_file_generator ''clash.proto'' (example_options True True []) True] ''old'') \<and>
   \<not> fst (Validate (example_file_generator ''clash.proto'' (example_options True True []) False)
     (snd (validate_all
       [example_file_generator ''clash.proto'' (example_options True True []) True] ''old''))) \<and>
   Generate example_generator ''clash.proto'' ''immutable,mutable'' [] ''old'' =
     \<lparr>returned = False, error = ''clash.proto: conflicting class name'',
      generator_context = [], all_files = [], all_annotations = []\<rparr>"
proof -
  have r: "read_options (generator_opensource_runtime example_generator)
     (ParseGeneratorParameter example_generator ''immutable,mutable'') =
     Inr (example_options True True [])"
    by (simp add: example_simps)
  have m: "make_file_generators example_generator ''clash.proto'' (example_options True True []) =
     [example_file_generator ''clash.proto'' (example_options True True []) True] @
     example_file_generator ''clash.proto'' (example_options True True []) False # []"
    by (simp add: make_file_generators_def example_generator_def example_options_def)
  have e: "fst (validate_all
     [example_file_generator ''clash.proto'' (example_options True True []) True] ''old'')"
    by (simp add: example_file_generator_def)
  have g: "\<not> fst (Validate
     (example_file_generator ''clash.proto'' (example_options True True []) False)
     (snd (validate_all
       [example_file_generator ''clash.proto'' (example_options True True []) True] ''old'')))"
    by (simp add: example_file_generator_def)
  from Generate_validate_before_generate [OF r m e g, of "[]"]
  have "Generate example_generator ''clash.proto'' ''immutable,mutable'' [] ''old'' =
     \<lparr>returned = False, error = ''clash.proto: conflicting class name'',
      generator_context = [], all_files = [], all_annotations = []\<rparr>"
    by (simp add: example_file_generator_def)
  with r m e g show ?thesis by simp
qed

text \<open>
  Claim C2. When none of the keys \<^verbatim>\<open>immutable\<close>, \<^verbatim>\<open>mutable\<close>, \<^verbatim>\<open>shared\<close>
  occurs and the options are accepted, the record has \<^verbatim>\<open>generate_immutable_code\<close> and
  \<^verbatim>\<open>generate_shared_code\<close> set and \<^verbatim>\<open>generate_mutable_code\<close> unset. The empty
  sequence is accepted and gives exactly the default record with these two flags set.
\<close>

theorem read_options_default_flags:
  "(''immutable'' \<notin> fst ` set options \<and> ''mutable'' \<notin> fst ` set options \<and>
    ''shared'' \<notin> fst ` set options \<and> read_options osr options = Inr fo \<longrightarrow>
      generate_immutable_code fo \<and> generate_shared_code fo \<and> \<not> generate_mutable_code fo) \<and>
   read_options osr [] =
     Inr \<lparr>generate_immutable_code = True, generate_mutable_code = False,
          generate_shared_code = True, enforce_lite = False, opensource_runtime = osr,
          annotate_code = False, annotation_list_file = [], output_list_file = []\<rparr>"
proof (intro conjI impI)
  assume a: "''immutable'' \<notin> fst ` set options \<and> ''mutable'' \<notin> fst ` set options \<and>
    ''shared'' \<notin> fst ` set options \<and> read_options osr options = Inr fo"
  then have r: "read_options osr options = Inr fo" by simp
  from a check_and_default_Inr(2) [OF read_options_Inr(2) [OF r]]
  have "fo = (options_after options (Options_default\<lparr>opensource_runtime := osr\<rparr>))
               \<lparr>generate_immutable_code := True, generate_shared_code := True\<rparr>"
    by (simp add: options_after_fields Options_default_def)
  with a show "generate_immutable_code fo" "generate_shared_code fo"
    "\<not> generate_mutable_code fo"
    by (simp_all add: options_after_fields Options_default_def)
next
  show "read_options osr [] =
     Inr \<lparr>generate_immutable_code = True, generate_mutable_code = False,
          generate_shared_code = True, enforce_lite = False, opensource_runtime = osr,
          annotate_code = False, annotation_list_file = [], output_list_file = []\<rparr>"
    by (simp add: read_options_def check_and_default_def Options_default_def)
qed

text \<open>The options \<^verbatim>\<open>lite,output_list_file=out.txt\<close>: the default applies.\<close>

theorem read_options_default_flags_witness:
  "''immutable'' \<notin> fst ` set [(''lite'', ''''), (''output_list_file'', ''out.txt'')] \<and>
   ''mutable'' \<notin> fst ` set [(''lite'', ''''), (''output_list_file'', ''out.txt'')] \<and>
   ''shared'' \<notin> fst ` set [(''lite'', ''''), (''output_list_file'', ''out.txt'')] \<and>
   read_options False [(''lite'', ''''), (''output_list_file'', ''out.txt'')] =
     Inr \<lparr>generate_immutable_code = True, generate_mutable_code = False,
          generate_shared_code = True, enforce_lite = True, opensource_runtime = False,
          annotate_code = False, annotation_list_file = [], output_list_file = ''out.txt''\<rparr> \<and>
   generate_immutable_code
     \<lparr>generate_immutable_code = True, generate_mutable_code = False,
      generate_shared_code = True, enforce_lite = True, opensource_runtime = False,
      annotate_code = False, annotation_list_file = [], output_list_file = ''out.txt''\<rparr> \<and>
   generate_shared_code
     \<lparr>generate_immutable_code = True, generate_mutable_code = False,
      generate_shared_code = True, enforce_lite = True, opensource_runtime = False,
      annotate_code = False, annotation_list_file = [], output_list_file = ''out.txt''\<rparr> \<and>
   \<not> generate_mutable_code
     \<lparr>generate_immutable_code = True, generate_mutable_code = False,
      generate_shared_code = True, enforce_lite = True, opensource_runtime = False,
      annotate_code = False, annotation_list_file = [], output_list_file = ''out.txt''\<rparr>"
  using read_options_default_flags
    [of "[(''lite'', ''''), (''output_list_file'', ''out.txt'')]" False
      "\<lparr>generate_immutable_code = True, generate_mutable_code = False,
      generate_shared_code = True, enforce_lite = True, opensource_runtime = False,
      annotate_code = False, annotation_list_file = [], output_list_file = ''out.txt''\<rparr>"]
  by (simp add: read_options_def apply_option_def check_and_default_def Options_default_def)

text \<open>
  Claim C3. When the options hold a key that is none of the seven recognized ones, the call
  fails, and the error is \<^verbatim>\<open>Unknown generator option: \<close> followed by the first such
  key. Nothing is opened. The options after that key play no part: the loop gives the same
  result with them removed. The options before it may well hold both \<^verbatim>\<open>lite\<close> and
  \<^verbatim>\<open>mutable\<close> (and so may those after it): the error is still the unknown key.
\<close>

theorem Generate_unknown_option:
  assumes "ParseGeneratorParameter G parameter = pre @ (k, v) # post"
    and "fst ` set pre \<subseteq> set recognized_keys"
    and "k \<notin> set recognized_keys"
  shows "Generate G file parameter ctx err =
           \<lparr>returned = False, error = ''Unknown generator option: '' @ k,
            generator_context = ctx, all_files = [], all_annotations = []\<rparr> \<and>
         apply_options (pre @ (k, v) # post) file_options =
           apply_options (pre @ [(k, v)]) file_options"
proof -
  have "read_options (generator_opensource_runtime G) (pre @ (k, v) # post) =
          Inl (''Unknown generator option: '' @ k)"
    using assms(2,3) by (rule read_options_first_unknown)
  then have "Generate G file parameter ctx err =
           \<lparr>returned = False, error = ''Unknown generator option: '' @ k,
            generator_context = ctx, all_files = [], all_annotations = []\<rparr>"
    unfolding Generate_def using assms(1) by simp
  moreover have "apply_options (pre @ (k, v) # post) file_options =
           apply_options (pre @ [(k, v)]) file_options"
    using apply_options_first_unknown [OF assms(2,3), of v post file_options]
      apply_options_first_unknown [OF assms(2,3), of v "[]" file_options]
    by simp
  ultimately show ?thesis by simp
qed

text \<open>An unknown key after \<^verbatim>\<open>lite\<close> and \<^verbatim>\<open>mutable\<close>: the unknown key is reported.\<close>

theorem Generate_unknown_option_witness:
  "ParseGeneratorParameter example_generator ''lite,mutable,bogus=1,immutable'' =
     [(''lite'', ''''), (''mutable'', '''')] @ (''bogus'', ''1'') # [(''immutable'', '''')] \<and>
   fst ` set [(''lite'', ''''), (''mutable'', '''')] \<subseteq> set recognized_keys \<and>
   ''bogus'' \<notin> set recognized_keys \<and>
   Generate example_generator ''foo.proto'' ''lite,mutable,bogus=1,immutable'' [] ''old'' =
     \<lparr>returned = False, error = ''Unknown generator option: bogus'',
      generator_context = [], all_files = [], all_annotations = []\<rparr>"
proof -
  have p: "ParseGeneratorParameter example_generator ''lite,mutable,bogus=1,immutable'' =
     [(''lite'', ''''), (''mutable'', '''')] @ (''bogus'', ''1'') # [(''immutable'', '''')]"
    by (simp only: example_generator_def JavaGenerator.simps example_parse_lite_mutable_bogus)
  have r: "fst ` set [(''lite'', ''''), (''mutable'', '''')] \<subseteq> set recognized_keys"
    by (simp add: recognized_keys_def)
  have u: "''bogus'' \<notin> set recognized_keys"
    by (simp add: recognized_keys_def)
  show ?thesis
    using p r u Generate_unknown_option [OF p r u, of "''foo.proto''" "[]" "''old''"]
    by simp
qed

text \<open>
  Claim C4. When every key is recognized and both \<^verbatim>\<open>lite\<close> and \<^verbatim>\<open>mutable\<close>
  occur, in any order and among any other options, the call fails with the fixed message
  of line 102, and the context is as it was: nothing has been opened.
\<close>

theorem Generate_lite_mutable:
  assumes "fst ` set (ParseGeneratorParameter G parameter) \<subseteq> set recognized_keys"
    and "''lite'' \<in> fst ` set (ParseGeneratorParameter G parameter)"
    and "''mutable'' \<in> fst ` set (ParseGeneratorParameter G parameter)"
  shows "Generate G file parameter ctx err =
           \<lparr>returned = False,
            error = ''lite runtime generator option cannot be used with mutable API.'',
            generator_context = ctx, all_files = [], all_annotations = []\<rparr>"
proof -
  have "read_options (generator_opensource_runtime G) (ParseGeneratorParameter G parameter) =
          Inl lite_mutable_message"
    using assms(2,3)
    by (simp add: read_options_recognized [OF assms(1)] check_and_default_def
        options_after_fields)
  then show ?thesis
    unfolding Generate_def lite_mutable_message_def by simp
qed

text \<open>\<^verbatim>\<open>mutable\<close> first, \<^verbatim>\<open>lite\<close> last, a list file between them.\<close>

theorem Generate_lite_mutable_witness:
  "fst ` set (ParseGeneratorParameter example_generator ''mutable,output_list_file=a.txt,lite'')
     \<subseteq> set recognized_keys \<and>
   ''lite'' \<in> fst ` set (ParseGeneratorParameter example_generator
      ''mutable,output_list_file=a.txt,lite'') \<and>
   ''mutable'' \<in> fst ` set (ParseGeneratorParameter example_generator
      ''mutable,output_list_file=a.txt,lite'') \<and>
   Generate example_generator ''foo.proto'' ''mutable,output_list_file=a.txt,lite'' [] ''old'' =
     \<lparr>returned = False,
      error = ''lite runtime generator option cannot be used with mutable API.'',
      generator_context = [], all_files = [], all_annotations = []\<rparr>"
proof -
  have p: "ParseGeneratorParameter example_generator ''mutable,output_list_file=a.txt,lite'' =
     [(''mutable'', ''''), (''output_list_file'', ''a.txt''), (''lite'', '''')]"
    by (simp only: example_generator_def JavaGenerator.simps example_parse_mutable_lite)
  have r: "fst ` set (ParseGeneratorParameter example_generator
      ''mutable,output_list_file=a.txt,lite'') \<subseteq> set recognized_keys"
    unfolding p by (simp add: recognized_keys_def)
  have l: "''lite'' \<in> fst ` set (ParseGeneratorParameter example_generator
      ''mutable,output_list_file=a.txt,lite'')"
    unfolding p by simp
  have m: "''mutable'' \<in> fst ` set (ParseGeneratorParameter example_generator
      ''mutable,output_list_file=a.txt,lite'')"
    unfolding p by simp
  show ?thesis
    using r l m Generate_lite_mutable [OF r l m, of "''foo.proto''" "[]" "''old''"]
    by simp
qed

text \<open>
  Claim C5. Whenever the options are accepted, the resulting record has at least one of
  \<^verbatim>\<open>generate_immutable_code\<close>, \<^verbatim>\<open>generate_mutable_code\<close>,
  \<^verbatim>\<open>generate_shared_code\<close> set, and does not have both \<^verbatim>\<open>enforce_lite\<close> and
  \<^verbatim>\<open>generate_mutable_code\<close> set.
\<close>

theorem read_options_invariants:
  assumes "read_options osr options = Inr fo"
  shows "(generate_immutable_code fo \<or> generate_mutable_code fo \<or> generate_shared_code fo) \<and>
         \<not> (enforce_lite fo \<and> generate_mutable_code fo)"
  using check_and_default_Inr [OF read_options_Inr(2) [OF assms]]
  by (simp split: if_splits)

text \<open>The options \<^verbatim>\<open>mutable,output_list_file=a.txt\<close>.\<close>

theorem read_options_invariants_witness:
  "read_options True [(''mutable'', ''''), (''output_list_file'', ''a.txt'')] =
     Inr (example_options False True ''a.txt'') \<and>
   generate_mutable_code (example_options False True ''a.txt'') \<and>
   \<not> enforce_lite (example_options False True ''a.txt'')"
proof -
  have r: "read_options True [(''mutable'', ''''), (''output_list_file'', ''a.txt'')] =
     Inr (example_options False True ''a.txt'')"
    by (simp add: example_simps)
  from read_options_invariants [OF r] r show ?thesis
    by (simp add: example_options_def)
qed

text \<open>
  Claim C6. The file generators are built in this order: one with the immutable flag
  \<open>True\<close> when \<^verbatim>\<open>generate_immutable_code\<close> is set, then one with the immutable flag
  \<open>False\<close> when \<^verbatim>\<open>generate_mutable_code\<close> is set. \<^verbatim>\<open>generate_shared_code\<close>
  adds none: changing it leaves the number of generators as it is.
\<close>

theorem make_file_generators_order:
  "make_file_generators G file file_options =
     map (new_FileGenerator G file file_options)
       ((if generate_immutable_code file_options then [True] else []) @
        (if generate_mutable_code file_options then [False] else [])) \<and>
   length (make_file_generators G file (file_options\<lparr>generate_shared_code := shared\<rparr>)) =
     length (make_file_generators G file file_options)"
  unfolding make_file_generators_def by simp

text \<open>Both APIs requested: the immutable generator, then the mutable one.\<close>

theorem make_file_generators_order_witness:
  "make_file_generators example_generator ''foo.proto'' (example_options True True []) =
     [example_file_generator ''foo.proto'' (example_options True True []) True,
      example_file_generator ''foo.proto'' (example_options True True []) False]"
  using make_file_generators_order
    [of example_generator "''foo.proto''" "example_options True True []" True]
  by (simp add: example_generator_def example_options_def)

text \<open>
  Claim C7. When \<^verbatim>\<open>annotate_code\<close> is not among the options and the call returns
  true, \<^verbatim>\<open>all_annotations\<close> is empty, however many generators ran and whatever
  siblings they wrote (the siblings adding annotation files only on request).
\<close>

theorem Generate_no_annotations:
  assumes "siblings_annotate_on_request G file"
    and "''annotate_code'' \<notin> fst ` set (ParseGeneratorParameter G parameter)"
    and "returned (Generate G file parameter ctx err)"
  shows "all_annotations (Generate G file parameter ctx err) = []"
proof -
  from assms(3) obtain fo where
    fo: "read_options (generator_opensource_runtime G) (ParseGeneratorParameter G parameter) = Inr fo"
    and ok: "fst (validate_all (make_file_generators G file fo) err)"
    by (rule Generate_returned)
  from read_options_fields(2) [OF fo] assms(2) have off: "\<not> annotate_code fo" by simp
  have "\<forall>g \<in> set (make_file_generators G file fo). \<forall>dir ctx files annotations.
           snd (snd (GenerateSiblings g dir ctx files annotations)) = annotations"
    using assms(1) off set_make_file_generators [of _ G "file" fo]
    unfolding siblings_annotate_on_request_def by blast
  from generate_all_annotations [OF off this, of G "(ctx, [], [])"]
  show ?thesis
    unfolding Generate_success [OF fo ok] by simp
qed

text \<open>Two generators and their siblings, four files, no annotation file.\<close>

theorem Generate_no_annotations_witness:
  "siblings_annotate_on_request example_generator ''foo.proto'' \<and>
   ''annotate_code'' \<notin>
     fst ` set (ParseGeneratorParameter example_generator ''immutable,mutable'') \<and>
   returned (Generate example_generator ''foo.proto'' ''immutable,mutable'' [] ''old'') \<and>
   all_files (Generate example_generator ''foo.proto'' ''immutable,mutable'' [] ''old'') =
     [''com/example/Foo.java'', ''com/example/Bar.java'',
      ''com/example/MutableFoo.java'', ''com/example/Bar.java''] \<and>
   all_annotations (Generate example_generator ''foo.proto'' ''immutable,mutable'' [] ''old'') = []"
proof -
  have p: "''annotate_code'' \<notin>
     fst ` set (ParseGeneratorParameter example_generator ''immutable,mutable'')"
    by (simp add: example_generator_def example_parse_def)
  have r: "returned (Generate example_generator ''foo.proto'' ''immutable,mutable'' [] ''old'')"
    by (simp add: example_simps)
  have f: "all_files (Generate example_generator ''foo.proto'' ''immutable,mutable'' [] ''old'') =
     [''com/example/Foo.java'', ''com/example/Bar.java'',
      ''com/example/MutableFoo.java'', ''com/example/Bar.java'']"
    by (simp add: example_simps)
  from Generate_no_annotations [OF example_siblings_annotate_on_request p r]
    example_siblings_annotate_on_request p r f
  show ?thesis by simp
qed

text \<open>
  Claim C8. In a run that gets past validation, with \<open>ctx'\<close>, \<open>files\<close> and
  \<open>annotations\<close> what the generation loop leaves: the call returns true; when
  \<^verbatim>\<open>output_list_file\<close> is not empty, the next stream opened is that file and it holds
  the names of \<open>files\<close>, in their order, each followed by a newline; then the same for
  \<^verbatim>\<open>annotation_list_file\<close> and \<open>annotations\<close>. A list file whose key is not among
  the options has an empty path, so no stream is opened for it, and the call still returns
  true.
\<close>

theorem Generate_list_files:
  assumes "read_options (generator_opensource_runtime G) (ParseGeneratorParameter G parameter) =
             Inr file_options"
    and "fst (validate_all (make_file_generators G file file_options) err)"
    and "generate_all G file_options (make_file_generators G file file_options) (ctx, [], []) =
           (ctx', files, annotations)"
  shows "returned (Generate G file parameter ctx err) \<and>
         all_files (Generate G file parameter ctx err) = files \<and>
         all_annotations (Generate G file parameter ctx err) = annotations \<and>
         generator_context (Generate G file parameter ctx err) =
           ctx' @
           (if output_list_file file_options = [] then []
            else [(output_list_file file_options,
                   concat (map (\<lambda>filename. filename @ ''\<newline>'') files))]) @
           (if annotation_list_file file_options = [] then []
            else [(annotation_list_file file_options,
                   concat (map (\<lambda>filename. filename @ ''\<newline>'') annotations))]) \<and>
         (''output_list_file'' \<notin> fst ` set (ParseGeneratorParameter G parameter) \<longrightarrow>
            output_list_file file_options = []) \<and>
         (''annotation_list_file'' \<notin> fst ` set (ParseGeneratorParameter G parameter) \<longrightarrow>
            annotation_list_file file_options = [])"
proof -
  have "output_list_file file_options =
          last_value ''output_list_file'' (ParseGeneratorParameter G parameter) []"
    and "annotation_list_file file_options =
          last_value ''annotation_list_file'' (ParseGeneratorParameter G parameter) []"
    using read_options_fields(4,5) [OF assms(1)] by simp_all
  then have "''output_list_file'' \<notin> fst ` set (ParseGeneratorParameter G parameter) \<longrightarrow>
            output_list_file file_options = []"
    and "''annotation_list_file'' \<notin> fst ` set (ParseGeneratorParameter G parameter) \<longrightarrow>
            annotation_list_file file_options = []"
    by (simp_all add: last_value_absent)
  then show ?thesis
    unfolding Generate_success [OF assms(1,2)] assms(3)
    by (simp add: write_lists_def print_list_def)
qed

text \<open>The list file \<^verbatim>\<open>a.txt\<close> holds the two generated names, in order.\<close>

theorem Generate_list_files_witness:
  "read_options (generator_opensource_runtime example_generator)
     (ParseGeneratorParameter example_generator ''immutable,output_list_file=a.txt'') =
     Inr (example_options True False ''a.txt'') \<and>
   fst (validate_all (make_file_generators example_generator ''foo.proto''
          (example_options True False ''a.txt'')) ''old'') \<and>
   generate_all example_generator (example_options True False ''a.txt'')
     (make_file_generators example_generator ''foo.proto''
        (example_options True False ''a.txt'')) ([], [], []) =
     ([(''com/example/Foo.java'', ''class''), (''com/example/Bar.java'', ''interface'')],
      [''com/example/Foo.java'', ''com/example/Bar.java''], []) \<and>
   generator_context
     (Generate example_generator ''foo.proto'' ''immutable,output_list_file=a.txt'' [] ''old'') =
     [(''com/example/Foo.java'', ''class''), (''com/example/Bar.java'', ''interface''),
      (''a.txt'', ''com/example/Foo.java\<newline>com/example/Bar.java\<newline>'')]"
proof -
  have r: "read_options (generator_opensource_runtime example_generator)
     (ParseGeneratorParameter example_generator ''immutable,output_list_file=a.txt'') =
     Inr (example_options True False ''a.txt'')"
    by (simp add: example_simps)
  have v: "fst (validate_all (make_file_generators example_generator ''foo.proto''
          (example_options True False ''a.txt'')) ''old'')"
    by (simp add: example_simps)
  have g: "generate_all example_generator (example_options True False ''a.txt'')
     (make_file_generators example_generator ''foo.proto''
        (example_options True False ''a.txt'')) ([], [], []) =
     ([(''com/example/Foo.java'', ''class''), (''com/example/Bar.java'', ''interface'')],
      [''com/example/Foo.java'', ''com/example/Bar.java''], [])"
    by (simp add: example_simps)
  from Generate_list_files [OF r v g]
  have "generator_context
     (Generate example_generator ''foo.proto'' ''immutable,output_list_file=a.txt'' [] ''old'') =
     [(''com/example/Foo.java'', ''class''), (''com/example/Bar.java'', ''interface''),
      (''a.txt'', ''com/example/Foo.java\<newline>com/example/Bar.java\<newline>'')]"
    by (simp add: example_options_def)
  with r v g show ?thesis by simp
qed

text \<open>
  Claim C9. The options are applied in order: applying \<open>xs @ ys\<close> is applying \<open>xs\<close> and
  then \<open>ys\<close> to what \<open>xs\<close> left. One more occurrence of a flag key that already occurs,
  at any place and with any value, changes nothing. For the two path keys the last
  occurrence decides the value.
\<close>

theorem apply_options_last_wins:
  "apply_options (xs @ ys) file_options =
     (case apply_options xs file_options of
        Inl e \<Rightarrow> Inl e
      | Inr file_options' \<Rightarrow> apply_options ys file_options') \<and>
   (k \<in> set [''immutable'', ''mutable'', ''shared'', ''lite'', ''annotate_code''] \<and>
    k \<in> fst ` set (xs @ ys) \<longrightarrow>
      apply_options (xs @ (k, v) # ys) file_options = apply_options (xs @ ys) file_options) \<and>
   (''output_list_file'' \<notin> fst ` set ys \<and>
    apply_options (xs @ (''output_list_file'', v) # ys) file_options = Inr file_options' \<longrightarrow>
      output_list_file file_options' = v) \<and>
   (''annotation_list_file'' \<notin> fst ` set ys \<and>
    apply_options (xs @ (''annotation_list_file'', v) # ys) file_options = Inr file_options' \<longrightarrow>
      annotation_list_file file_options' = v)"
proof (intro conjI impI)
  show "apply_options (xs @ ys) file_options =
     (case apply_options xs file_options of
        Inl e \<Rightarrow> Inl e
      | Inr file_options' \<Rightarrow> apply_options ys file_options')"
    by (rule apply_options_append)
next
  assume "k \<in> set [''immutable'', ''mutable'', ''shared'', ''lite'', ''annotate_code''] \<and>
    k \<in> fst ` set (xs @ ys)"
  then have "k \<in> set flag_keys" and "k \<in> fst ` set (xs @ ys)"
    unfolding flag_keys_def by blast+
  then show "apply_options (xs @ (k, v) # ys) file_options = apply_options (xs @ ys) file_options"
    by (rule apply_options_repeated_flag)
next
  assume a: "''output_list_file'' \<notin> fst ` set ys \<and>
    apply_options (xs @ (''output_list_file'', v) # ys) file_options = Inr file_options'"
  then have "file_options' = options_after (xs @ (''output_list_file'', v) # ys) file_options"
    using apply_options_Inr by blast
  with a show "output_list_file file_options' = v"
    by (simp add: options_after_fields last_value_last)
next
  assume a: "''annotation_list_file'' \<notin> fst ` set ys \<and>
    apply_options (xs @ (''annotation_list_file'', v) # ys) file_options = Inr file_options'"
  then have "file_options' = options_after (xs @ (''annotation_list_file'', v) # ys) file_options"
    using apply_options_Inr by blast
  with a show "annotation_list_file file_options' = v"
    by (simp add: options_after_fields last_value_last)
qed

text \<open>A second \<^verbatim>\<open>lite\<close> changes nothing; a second path replaces the first.\<close>

theorem apply_options_last_wins_witness:
  "''lite'' \<in> set [''immutable'', ''mutable'', ''shared'', ''lite'', ''annotate_code''] \<and>
   ''lite'' \<in> fst ` set ([(''output_list_file'', ''a.txt''), (''lite'', '''')] @
                        [(''immutable'', '''')]) \<and>
   apply_options ([(''output_list_file'', ''a.txt''), (''lite'', '''')] @
       (''lite'', ''b.txt'') # [(''immutable'', '''')]) Options_default =
     apply_options ([(''output_list_file'', ''a.txt''), (''lite'', '''')] @
       [(''immutable'', '''')]) Options_default \<and>
   ''output_list_file'' \<notin> fst ` set [(''immutable'', '''')] \<and>
   apply_options ([(''output_list_file'', ''a.txt''), (''lite'', '''')] @
       (''output_list_file'', ''b.txt'') # [(''immutable'', '''')]) Options_default =
     Inr (Options_default\<lparr>generate_immutable_code := True, enforce_lite := True,
            output_list_file := ''b.txt''\<rparr>) \<and>
   output_list_file (Options_default\<lparr>generate_immutable_code := True, enforce_lite := True,
            output_list_file := ''b.txt''\<rparr>) = ''b.txt'' \<and>
   ''annotation_list_file'' \<notin> fst ` set [(''immutable'', '''')] \<and>
   apply_options ([(''output_list_file'', ''a.txt''), (''lite'', '''')] @
       (''annotation_list_file'', ''b.txt'') # [(''immutable'', '''')]) Options_default =
     Inr (Options_default\<lparr>generate_immutable_code := True, enforce_lite := True,
            output_list_file := ''a.txt'', annotation_list_file := ''b.txt''\<rparr>) \<and>
   annotation_list_file (Options_default\<lparr>generate_immutable_code := True, enforce_lite := True,
            output_list_file := ''a.txt'', annotation_list_file := ''b.txt''\<rparr>) = ''b.txt''"
  using
    apply_options_last_wins
      [of "[(''output_list_file'', ''a.txt''), (''lite'', '''')]" "[(''immutable'', '''')]"
          Options_default "''lite''" "''b.txt''"
          "Options_default\<lparr>generate_immutable_code := True, enforce_lite := True,
            output_list_file := ''b.txt''\<rparr>"]
    apply_options_last_wins
      [of "[(''output_list_file'', ''a.txt''), (''lite'', '''')]" "[(''immutable'', '''')]"
          Options_default "''lite''" "''b.txt''"
          "Options_default\<lparr>generate_immutable_code := True, enforce_lite := True,
            output_list_file := ''a.txt'', annotation_list_file := ''b.txt''\<rparr>"]
  by (simp add: apply_option_def Options_default_def)

text \<open>
  Claim C10. \<^verbatim>\<open>Generate\<close> itself assigns the error slot only where it returns false
  (lines 96 and 102); apart from that the slot is only handed to \<^verbatim>\<open>Validate\<close>. So,
  with validations that write the slot only when they fail, a call that returns true leaves
  the slot as it was.
\<close>

theorem Generate_success_keeps_error:
  assumes "Validate_keeps_error_on_success G file"
    and "returned (Generate G file parameter ctx err)"
  shows "error (Generate G file parameter ctx err) = err"
proof -
  from assms(2) obtain fo where
    fo: "read_options (generator_opensource_runtime G) (ParseGeneratorParameter G parameter) = Inr fo"
    and ok: "fst (validate_all (make_file_generators G file fo) err)"
    by (rule Generate_returned)
  have "\<forall>g \<in> set (make_file_generators G file fo).
          \<forall>e. fst (Validate g e) \<longrightarrow> snd (Validate g e) = e"
    using assms(1) set_make_file_generators [of _ G "file" fo]
    unfolding Validate_keeps_error_on_success_def by blast
  from validate_all_keeps_error [OF this ok]
  show ?thesis
    unfolding Generate_success [OF fo ok] by simp
qed

text \<open>A run that returns true: the slot still holds what the caller put there.\<close>

theorem Generate_success_keeps_error_witness:
  "Validate_keeps_error_on_success example_generator ''foo.proto'' \<and>
   returned (Generate example_generator ''foo.proto'' ''immutable,mutable'' [] ''old'') \<and>
   error (Generate example_generator ''foo.proto'' ''immutable,mutable'' [] ''old'') = ''old''"
proof -
  have r: "returned (Generate example_generator ''foo.proto'' ''immutable,mutable'' [] ''old'')"
    by (simp add: example_simps)
  from Generate_success_keeps_error [OF example_Validate_keeps_error r]
    example_Validate_keeps_error r
  show ?thesis by simp
qed

end
